theory Spec2Isabelle
  imports Main
begin

section \<open>The server entry point \<open>packages/server/src/main.ts\<close>\<close>

text \<open>
  The only executable code of the repository that is available is the entry point of the
  server package:
  \<^verbatim>\<open>
  async function bootstrap() {
    const app = await NestFactory.create(AppModule);
    await app.listen(3000);
    // eslint-disable-next-line no-console
    console.log('Server running on http://localhost:3000');
  }

  bootstrap();
  \<close>
  It is embedded as a computation over an explicit world: every call that the code issues
  and every \<open>await\<close> it evaluates is appended to a log of events, an awaited promise that
  rejects becomes a thrown error, and the behaviour of the third-party framework is a
  parameter: whether \<open>create\<close> and \<open>listen\<close> succeed, and whether a factory that fails
  rejects its promise or reports the failure itself and ends the process. The imports above
  the routine (\<open>reflect-metadata\<close>, \<open>@nestjs/core\<close>, \<open>./app.module\<close>) bind the names
  \<open>NestFactory\<close> and \<open>AppModule\<close>; the modules themselves are not part of the source at
  hand.
\<close>

subsection \<open>Data\<close>

type_synonym port = nat

text \<open>The module handed to the factory; \<open>./app.module\<close> exports one.\<close>

datatype nest_module = AppModule

text \<open>The application object the factory resolves to, an opaque handle.\<close>

datatype app = NestApplication nat

text \<open>
  What can be thrown inside the routine: what a promise of the framework rejects with, or
  the use of a name that is not bound.
\<close>

datatype error = EADDRINUSE port | FrameworkError string | ReferenceError string

text \<open>
  The calls of the host and the framework that a server entry point can issue. The first
  three are the ones \<open>bootstrap\<close> contains; \<open>Close\<close> (\<open>app.close()\<close>) and \<open>Exit\<close>
  (\<open>process.exit(n)\<close>) are the calls that would stop a running server.
\<close>

datatype call =
    Create nest_module
  | Listen app port
  | Log string
  | Close app
  | Exit int

text \<open>
  An event is a call issued by the code, or the evaluation of one \<open>await\<close>, which names
  the call whose promise is awaited.
\<close>

datatype event = Invoke call | Await call

text \<open>The input of a run: command line and environment variables.\<close>

record process =
  argv :: "string list"
  env :: "string \<rightharpoonup> string"

text \<open>
  The world a run acts on: its input, the persistent records of the host (files by path),
  the events so far (oldest first), the port the server is bound to, and the exit code once
  the process has exited.
\<close>

record world =
  proc :: process
  files :: "string \<rightharpoonup> string"
  calls :: "event list"
  listening :: "port option"
  exited :: "int option"

text \<open>
  The framework at one run: whether the creation of the application succeeds, whether
  \<open>app.listen\<close> fails (\<open>None\<close>: it succeeds), and what the factory does with a failed
  creation. The factory has an option \<open>abortOnError\<close>; the call of the routine passes no
  options, so the framework's default decides. Where it is in force (as it is by default in
  the framework the routine imports), the factory reports the failure itself and ends the
  process with \<open>process.exit(1)\<close>, and its promise never settles; where it is not, the
  promise rejects.
\<close>

record framework =
  create_result :: "nest_module \<Rightarrow> error + app"
  listen_result :: "app \<Rightarrow> port \<Rightarrow> error option"
  abort_on_error :: bool

text \<open>
  What becomes of a promise: it is fulfilled, it rejects, or the process ends while it is
  pending. A promise remembers the call that made it.
\<close>

datatype 'a settlement = Fulfilled 'a | Rejected error | Abandoned

type_synonym 'a promise = "call \<times> 'a settlement"

text \<open>
  How a statement completes inside the \<open>async\<close> function body: normally, by throwing, or
  not at all because the process ended while the routine was suspended.
\<close>

datatype 'a completion = Returns 'a | Throws error | Halts

type_synonym 'a async = "world \<Rightarrow> 'a completion \<times> world"

subsection \<open>Statements\<close>

text \<open>Sequencing of statements: a throw or the end of the process skips everything after it.\<close>

definition seq :: "'a async \<Rightarrow> ('a \<Rightarrow> 'b async) \<Rightarrow> 'b async" where
  "seq m k w =
     (case m w of
        (Returns x, w') \<Rightarrow> k x w'
      | (Throws e, w') \<Rightarrow> (Throws e, w')
      | (Halts, w') \<Rightarrow> (Halts, w'))"

definition emit :: "event \<Rightarrow> world \<Rightarrow> world" where
  "emit ev w = w\<lparr>calls := calls w @ [ev]\<rparr>"

text \<open>
  \<open>await p\<close>: the value of a fulfilled promise, the exception of a rejected one; the
  routine never resumes from a promise that the end of the process left pending.
\<close>

definition await :: "'a promise \<Rightarrow> 'a async" where
  "await p w =
     (case snd p of
        Fulfilled x \<Rightarrow> (Returns x, emit (Await (fst p)) w)
      | Rejected e \<Rightarrow> (Throws e, emit (Await (fst p)) w)
      | Abandoned \<Rightarrow> (Halts, emit (Await (fst p)) w))"

text \<open>
  \<open>NestFactory.create(m)\<close>, called without options, returns a promise. A creation that
  fails under \<open>abortOnError\<close> ends the process with exit code 1: nothing is bound any
  more, and the promise stays pending.
\<close>

definition NestFactory_create :: "framework \<Rightarrow> nest_module \<Rightarrow> (app promise) async" where
  "NestFactory_create fw m w =
     (case create_result fw m of
        Inr a \<Rightarrow> (Returns (Create m, Fulfilled a), emit (Invoke (Create m)) w)
      | Inl e \<Rightarrow>
          if abort_on_error fw
          then (Returns (Create m, Abandoned),
                (emit (Invoke (Create m)) w)\<lparr>listening := None, exited := Some 1\<rparr>)
          else (Returns (Create m, Rejected e), emit (Invoke (Create m)) w))"

text \<open>
  \<open>app.listen(p)\<close> returns a promise. Whether it rejects is the framework's to say;
  where it resolves, the server is bound to \<open>p\<close> (the spec: "a service process binds TCP
  port 3000").
\<close>

definition app_listen :: "framework \<Rightarrow> app \<Rightarrow> port \<Rightarrow> (unit promise) async" where
  "app_listen fw a p w =
     (case listen_result fw a p of
        Some e \<Rightarrow> (Returns (Listen a p, Rejected e), emit (Invoke (Listen a p)) w)
      | None \<Rightarrow>
          (Returns (Listen a p, Fulfilled ()),
           (emit (Invoke (Listen a p)) w)\<lparr>listening := Some p\<rparr>))"

definition console_log :: "string \<Rightarrow> unit async" where
  "console_log s w = (Returns (), emit (Invoke (Log s)) w)"

subsection \<open>The routine\<close>

definition bootstrap :: "framework \<Rightarrow> unit async" where
  "bootstrap fw =
     seq (NestFactory_create fw AppModule) (\<lambda>created.
     seq (await created) (\<lambda>app.
     seq (app_listen fw app 3000) (\<lambda>listened.
     seq (await listened) (\<lambda>_.
     console_log ''Server running on http://localhost:3000''))))"

text \<open>
  The module's last statement, \<open>bootstrap();\<close>: the promise is dropped, so a rejection
  is handled by nobody.
\<close>

datatype outcome = Resolved | UnhandledRejection error | ProcessEnded

definition main :: "framework \<Rightarrow> world \<Rightarrow> outcome \<times> world" where
  "main fw w =
     (case bootstrap fw w of
        (Returns _, w') \<Rightarrow> (Resolved, w')
      | (Throws e, w') \<Rightarrow> (UnhandledRejection e, w')
      | (Halts, w') \<Rightarrow> (ProcessEnded, w'))"

subsection \<open>The body, line by line\<close>

text \<open>
  The four lines between the braces of \<open>bootstrap\<close>, as they stand in the source: the
  declaration of \<open>app\<close>, the call of \<open>listen\<close>, a comment for the linter, and the call of
  \<open>console.log\<close>.
\<close>

datatype line =
    ConstAppAwaitCreate nest_module
  | AwaitAppListen port
  | LintComment string
  | ConsoleLog string

definition bootstrap_body :: "line list" where
  "bootstrap_body =
     [ConstAppAwaitCreate AppModule,
      AwaitAppListen 3000,
      LintComment ''eslint-disable-next-line no-console'',
      ConsoleLog ''Server running on http://localhost:3000'']"

fun is_statement :: "line \<Rightarrow> bool" where
  "is_statement (LintComment c) = False"
| "is_statement l = True"

text \<open>
  Running lines one after the other; \<open>scope\<close> is what \<open>app\<close> is bound to. A function
  body that runs off its end returns.
\<close>

fun run_lines :: "framework \<Rightarrow> line list \<Rightarrow> app option \<Rightarrow> unit async" where
  "run_lines fw [] scope = (\<lambda>w. (Returns (), w))"
| "run_lines fw (ConstAppAwaitCreate m # ls) scope =
     seq (NestFactory_create fw m) (\<lambda>created.
     seq (await created) (\<lambda>app. run_lines fw ls (Some app)))"
| "run_lines fw (AwaitAppListen p # ls) scope =
     (case scope of
        None \<Rightarrow> (\<lambda>w. (Throws (ReferenceError ''app''), w))
      | Some app \<Rightarrow>
          seq (app_listen fw app p) (\<lambda>listened.
          seq (await listened) (\<lambda>_. run_lines fw ls scope)))"
| "run_lines fw (LintComment c # ls) scope = run_lines fw ls scope"
| "run_lines fw (ConsoleLog s # ls) scope =
     seq (console_log s) (\<lambda>_. run_lines fw ls scope)"

subsection \<open>Observations of a run\<close>

text \<open>The events that one run of \<open>bootstrap\<close> adds to the log.\<close>

definition run_events :: "framework \<Rightarrow> world \<Rightarrow> event list" where
  "run_events fw w = drop (length (calls w)) (calls (snd (bootstrap fw w)))"

text \<open>
  The calls among some events, the ports handed to \<open>listen\<close>, the messages logged, the
  calls whose promises were awaited, and how many awaits there were.
\<close>

fun invoked :: "event list \<Rightarrow> call list" where
  "invoked [] = []"
| "invoked (Invoke c # evs) = c # invoked evs"
| "invoked (Await c # evs) = invoked evs"

fun listen_ports :: "event list \<Rightarrow> port list" where
  "listen_ports [] = []"
| "listen_ports (Invoke (Listen a p) # evs) = p # listen_ports evs"
| "listen_ports (ev # evs) = listen_ports evs"

fun logged :: "event list \<Rightarrow> string list" where
  "logged [] = []"
| "logged (Invoke (Log s) # evs) = s # logged evs"
| "logged (ev # evs) = logged evs"

fun awaited :: "event list \<Rightarrow> call list" where
  "awaited [] = []"
| "awaited (Await c # evs) = c # awaited evs"
| "awaited (Invoke c # evs) = awaited evs"

fun awaits :: "event list \<Rightarrow> nat" where
  "awaits [] = 0"
| "awaits (Await c # evs) = Suc (awaits evs)"
| "awaits (ev # evs) = awaits evs"

text \<open>A call that stops a running server.\<close>

fun stops :: "call \<Rightarrow> bool" where
  "stops (Close a) = True"
| "stops (Exit n) = True"
| "stops c = False"

text \<open>The framework is fully started: the application was created and \<open>listen(3000)\<close> resolved.\<close>

definition fully_started :: "framework \<Rightarrow> bool" where
  "fully_started fw =
     (case create_result fw AppModule of
        Inl e \<Rightarrow> False
      | Inr a \<Rightarrow> listen_result fw a 3000 = None)"

text \<open>The statements of \<open>bootstrap\<close> in order, for the application handle \<open>a\<close>.\<close>

definition steps :: "app \<Rightarrow> event list" where
  "steps a =
     [Invoke (Create AppModule), Await (Create AppModule),
      Invoke (Listen a 3000), Await (Listen a 3000),
      Invoke (Log ''Server running on http://localhost:3000'')]"

text \<open>What went wrong at startup, if anything: the failure of \<open>create\<close>, else that of \<open>listen(3000)\<close>.\<close>

definition startup_failure :: "framework \<Rightarrow> error option" where
  "startup_failure fw =
     (case create_result fw AppModule of
        Inl e \<Rightarrow> Some e
      | Inr a \<Rightarrow> listen_result fw a 3000)"

text \<open>
  Modelled from the spec: the default route of the framework scaffold (the controller of
  \<open>./app.module\<close> and the HTTP server of the framework are not part of the available
  source). The spec says that the service, bound to its TCP port, "once the underlying
  framework is fully started, becomes able to answer" that route: a request to port \<open>p\<close>
  is answered exactly when the server is bound to \<open>p\<close>.
\<close>

definition answers_default_route :: "world \<Rightarrow> port \<Rightarrow> bool" where
  "answers_default_route w p = (listening w = Some p)"

text \<open>
  The spec's description of the routine, in its words: it "constructs an application object
  from a framework and calls listen on a fixed port", and does nothing more.
\<close>

fun spec_create_or_listen :: "call \<Rightarrow> bool" where
  "spec_create_or_listen (Create m) = True"
| "spec_create_or_listen (Listen a p) = True"
| "spec_create_or_listen c = False"

definition spec_two_things_only :: "event list \<Rightarrow> bool" where
  "spec_two_things_only evs = list_all spec_create_or_listen (invoked evs)"

text \<open>The spec's count of asynchronous operations: a single awaited one.\<close>

definition spec_single_await :: "event list \<Rightarrow> bool" where
  "spec_single_await evs = (awaits evs = 1)"

text \<open>
  The spec's account of failures, in its words: "any failure (e.g., port already in use)
  would propagate as an unhandled startup failure", out of \<open>bootstrap\<close>, and the message
  is not logged.
\<close>

definition spec_failure_propagates :: "framework \<Rightarrow> world \<Rightarrow> bool" where
  "spec_failure_propagates fw w =
     (case startup_failure fw of
        None \<Rightarrow> True
      | Some e \<Rightarrow>
          fst (bootstrap fw w) = Throws e \<and>
          fst (main fw w) = UnhandledRejection e \<and>
          logged (run_events fw w) = [])"

text \<open>Decimal notation of a number, to compare the port in the logged text with the port bound.\<close>

fun decimal :: "nat \<Rightarrow> string" where
  "decimal n =
     (if n < 10 then [''0123456789'' ! n]
      else decimal (n div 10) @ [''0123456789'' ! (n mod 10)])"

declare decimal.simps [simp del]

subsection \<open>Concrete runs\<close>

definition world0 :: world where
  "world0 =
     \<lparr>proc = \<lparr>argv = [''node'', ''dist/main.js''], env = Map.empty\<rparr>,
      files = Map.empty, calls = [], listening = None, exited = None\<rparr>"

text \<open>
  A framework that starts, one whose port is taken, one whose factory fails and ends the
  process, and one whose factory fails and rejects.
\<close>

definition fw_ok :: framework where
  "fw_ok =
     \<lparr>create_result = (\<lambda>m. Inr (NestApplication 1)), listen_result = (\<lambda>a p. None),
      abort_on_error = True\<rparr>"

definition fw_port_in_use :: framework where
  "fw_port_in_use =
     \<lparr>create_result = (\<lambda>m. Inr (NestApplication 1)),
      listen_result = (\<lambda>a p. Some (EADDRINUSE p)),
      abort_on_error = True\<rparr>"

definition fw_create_fails :: framework where
  "fw_create_fails =
     \<lparr>create_result = (\<lambda>m. Inl (FrameworkError ''cannot resolve dependencies'')),
      listen_result = (\<lambda>a p. None),
      abort_on_error = True\<rparr>"

definition fw_create_rejects :: framework where
  "fw_create_rejects =
     \<lparr>create_result = (\<lambda>m. Inl (FrameworkError ''cannot resolve dependencies'')),
      listen_result = (\<lambda>a p. None),
      abort_on_error = False\<rparr>"

section \<open>The ways a run can go\<close>

lemma bootstrap_create_aborts:
  assumes "create_result fw AppModule = Inl e" and "abort_on_error fw"
  shows "bootstrap fw w =
    (Halts, w\<lparr>calls := calls w @ [Invoke (Create AppModule), Await (Create AppModule)],
       listening := None, exited := Some 1\<rparr>)"
  using assms
  by (simp add: bootstrap_def seq_def NestFactory_create_def await_def emit_def)

lemma bootstrap_create_rejects:
  assumes "create_result fw AppModule = Inl e" and "\<not> abort_on_error fw"
  shows "bootstrap fw w =
    (Throws e, w\<lparr>calls := calls w @ [Invoke (Create AppModule), Await (Create AppModule)]\<rparr>)"
  using assms
  by (simp add: bootstrap_def seq_def NestFactory_create_def await_def emit_def)

lemma bootstrap_listen_rejects:
  assumes "create_result fw AppModule = Inr a" and "listen_result fw a 3000 = Some e"
  shows "bootstrap fw w =
    (Throws e, w\<lparr>calls := calls w @
       [Invoke (Create AppModule), Await (Create AppModule),
        Invoke (Listen a 3000), Await (Listen a 3000)]\<rparr>)"
  using assms
  by (simp add: bootstrap_def seq_def NestFactory_create_def app_listen_def await_def emit_def)

lemma bootstrap_resolves:
  assumes "create_result fw AppModule = Inr a" and "listen_result fw a 3000 = None"
  shows "bootstrap fw w =
    (Returns (), w\<lparr>calls := calls w @ steps a, listening := Some 3000\<rparr>)"
  using assms
  by (simp add: bootstrap_def seq_def NestFactory_create_def app_listen_def await_def
      console_log_def emit_def steps_def)

lemma run_events_create_fails:
  assumes "create_result fw AppModule = Inl e"
  shows "run_events fw w = take 2 (steps a)"
proof (cases "abort_on_error fw")
  case True
  with assms show ?thesis
    by (simp add: run_events_def bootstrap_create_aborts steps_def)
next
  case False
  with assms show ?thesis
    by (simp add: run_events_def bootstrap_create_rejects steps_def)
qed

lemma run_events_listen_rejects:
  "create_result fw AppModule = Inr a \<Longrightarrow> listen_result fw a 3000 = Some e \<Longrightarrow>
   run_events fw w = take 4 (steps a)"
  by (simp add: run_events_def bootstrap_listen_rejects steps_def)

lemma run_events_resolves:
  "create_result fw AppModule = Inr a \<Longrightarrow> listen_result fw a 3000 = None \<Longrightarrow>
   run_events fw w = steps a"
  by (simp add: run_events_def bootstrap_resolves)

text \<open>Every run is one of the three, as far as its events go.\<close>

lemma run_cases:
  obtains
    (create_fails) e where "create_result fw AppModule = Inl e"
  | (listen_rejects) a e where "create_result fw AppModule = Inr a"
      and "listen_result fw a 3000 = Some e"
  | (resolves) a where "create_result fw AppModule = Inr a"
      and "listen_result fw a 3000 = None"
proof (cases "create_result fw AppModule")
  case (Inl e)
  then show ?thesis by (rule create_fails)
next
  case (Inr a)
  show ?thesis
  proof (cases "listen_result fw a 3000")
    case None
    with Inr show ?thesis by (rule resolves)
  next
    case (Some e)
    with Inr show ?thesis by (rule listen_rejects)
  qed
qed

lemma fully_started_obtain:
  assumes "fully_started fw"
  obtains a where "create_result fw AppModule = Inr a" and "listen_result fw a 3000 = None"
  using assms by (auto simp: fully_started_def split: sum.splits)

text \<open>The four lines of the body are the routine.\<close>

lemma seq_return: "seq m (\<lambda>x w. (Returns (), w)) = (m :: unit async)"
  by (rule ext) (simp add: seq_def split: prod.splits completion.splits)

lemma run_lines_bootstrap_body: "run_lines fw bootstrap_body None = bootstrap fw"
  by (simp add: bootstrap_body_def bootstrap_def seq_return)

text \<open>The concrete frameworks, evaluated.\<close>

lemma fw_ok_simps:
  "create_result fw_ok AppModule = Inr (NestApplication 1)"
  "listen_result fw_ok a p = None"
  "fully_started fw_ok"
  by (simp_all add: fw_ok_def fully_started_def)

lemma fw_port_in_use_simps:
  "create_result fw_port_in_use AppModule = Inr (NestApplication 1)"
  "listen_result fw_port_in_use a p = Some (EADDRINUSE p)"
  "startup_failure fw_port_in_use = Some (EADDRINUSE 3000)"
  by (simp_all add: fw_port_in_use_def startup_failure_def)

lemma fw_create_fails_simps:
  "create_result fw_create_fails AppModule =
     Inl (FrameworkError ''cannot resolve dependencies'')"
  "abort_on_error fw_create_fails"
  "startup_failure fw_create_fails = Some (FrameworkError ''cannot resolve dependencies'')"
  by (simp_all add: fw_create_fails_def startup_failure_def)

lemma fw_create_rejects_simps:
  "create_result fw_create_rejects AppModule =
     Inl (FrameworkError ''cannot resolve dependencies'')"
  "\<not> abort_on_error fw_create_rejects"
  "startup_failure fw_create_rejects = Some (FrameworkError ''cannot resolve dependencies'')"
  by (simp_all add: fw_create_rejects_def startup_failure_def)

lemma world0_simps:
  "calls world0 = []" "listening world0 = None" "exited world0 = None"
  by (simp_all add: world0_def)

lemma run_events_fw_ok: "run_events fw_ok w = steps (NestApplication 1)"
  by (rule run_events_resolves) (rule fw_ok_simps)+

lemma run_events_fw_port_in_use:
  "run_events fw_port_in_use w = take 4 (steps (NestApplication 1))"
  by (rule run_events_listen_rejects) (rule fw_port_in_use_simps)+

lemma run_events_fw_create_fails:
  "run_events fw_create_fails w = take 2 (steps (NestApplication 1))"
  by (rule run_events_create_fails) (rule fw_create_fails_simps)

section \<open>Properties of the entry point\<close>

text \<open>
  C1. When the bootstrap routine is run, the port handed to the framework's \<open>listen\<close> is
  exactly 3000, and a fully started framework is bound to 3000 and answers the default route
  there; a process that was bound to nothing answers the default route on some port only if
  the framework is fully started, and then on 3000.
\<close>

theorem listens_on_3000_and_answers_once_started:
  "(Invoke (Listen a p) \<in> set (run_events fw w) \<longrightarrow> p = 3000) \<and>
   (fully_started fw \<longrightarrow>
      listen_ports (run_events fw w) = [3000] \<and>
      answers_default_route (snd (bootstrap fw w)) 3000) \<and>
   (listening w = None \<and> answers_default_route (snd (bootstrap fw w)) q \<longrightarrow>
      fully_started fw \<and> q = 3000)"
proof (cases rule: run_cases [of fw])
  case (create_fails e)
  then have ev: "run_events fw w = take 2 (steps (NestApplication 0))"
    by (rule run_events_create_fails)
  show ?thesis
  proof (cases "abort_on_error fw")
    case True
    with create_fails ev show ?thesis
      by (auto simp add: steps_def fully_started_def answers_default_route_def
          bootstrap_create_aborts)
  next
    case False
    with create_fails ev show ?thesis
      by (auto simp add: steps_def fully_started_def answers_default_route_def
          bootstrap_create_rejects)
  qed
next
  case (listen_rejects b e)
  then have "run_events fw w = take 4 (steps b)"
    by (rule run_events_listen_rejects)
  with listen_rejects show ?thesis
    by (auto simp add: steps_def fully_started_def answers_default_route_def
        bootstrap_listen_rejects)
next
  case (resolves b)
  then have "run_events fw w = steps b"
    by (rule run_events_resolves)
  with resolves show ?thesis
    by (auto simp add: steps_def fully_started_def answers_default_route_def
        bootstrap_resolves)
qed

theorem listens_on_3000_and_answers_once_started_witness:
  "Invoke (Listen (NestApplication 1) 3000) \<in> set (run_events fw_ok world0) \<and>
   fully_started fw_ok \<and>
   listening world0 = None \<and>
   listen_ports (run_events fw_ok world0) = [3000] \<and>
   answers_default_route (snd (bootstrap fw_ok world0)) 3000"
  using listens_on_3000_and_answers_once_started
    [of "NestApplication 1" 3000 fw_ok world0 3000]
  by (simp add: run_events_fw_ok steps_def fw_ok_simps world0_simps)

text \<open>
  C3, as the spec has it: every failure of the startup sequence propagates out of
  \<open>bootstrap\<close> as an unhandled failure. It fails where the factory fails under the
  framework's default: the framework ends the process, and nothing comes out of
  \<open>bootstrap\<close>.
\<close>

theorem failure_propagates_counterexample:
  "\<not> spec_failure_propagates fw_create_fails world0"
  by (simp add: spec_failure_propagates_def fw_create_fails_simps bootstrap_create_aborts)

text \<open>
  C3, amended. The bootstrap sequence handles no error. Where \<open>listen(3000)\<close> rejects
  (the port already in use, say), or the factory rejects, the very error comes out of
  \<open>bootstrap\<close> and is an unhandled rejection of the program; where the factory fails with
  \<open>abortOnError\<close> in force, the framework ends the process with exit code 1 and nothing
  comes out of \<open>bootstrap\<close>. In each case the run stops at the await that failed: the world
  it leaves has the calls up to that await and nothing else (no recovery, no retry, no
  report of the routine's own), and the message is not logged.
\<close>

theorem startup_failure_unhandled_or_process_ended:
  assumes "startup_failure fw = Some e"
  shows "main fw w =
      (case create_result fw AppModule of
         Inl e' \<Rightarrow>
           if abort_on_error fw
           then (ProcessEnded,
                 w\<lparr>calls := calls w @ [Invoke (Create AppModule), Await (Create AppModule)],
                   listening := None, exited := Some 1\<rparr>)
           else (UnhandledRejection e,
                 w\<lparr>calls := calls w @ [Invoke (Create AppModule), Await (Create AppModule)]\<rparr>)
       | Inr a \<Rightarrow>
           (UnhandledRejection e,
            w\<lparr>calls := calls w @
              [Invoke (Create AppModule), Await (Create AppModule),
               Invoke (Listen a 3000), Await (Listen a 3000)]\<rparr>)) \<and>
    logged (run_events fw w) = []"
proof (cases rule: run_cases [of fw])
  case (create_fails e')
  with assms have e: "e' = e"
    by (simp add: startup_failure_def)
  from create_fails have ev: "run_events fw w = take 2 (steps (NestApplication 0))"
    by (rule run_events_create_fails)
  show ?thesis
  proof (cases "abort_on_error fw")
    case True
    with create_fails e ev show ?thesis
      by (simp add: main_def bootstrap_create_aborts steps_def)
  next
    case False
    with create_fails e ev show ?thesis
      by (simp add: main_def bootstrap_create_rejects steps_def)
  qed
next
  case (listen_rejects a e')
  with assms have e: "e' = e"
    by (simp add: startup_failure_def)
  from listen_rejects have "run_events fw w = take 4 (steps a)"
    by (rule run_events_listen_rejects)
  with listen_rejects e show ?thesis
    by (simp add: main_def bootstrap_listen_rejects steps_def)
next
  case (resolves a)
  with assms show ?thesis
    by (simp add: startup_failure_def)
qed

theorem startup_failure_unhandled_or_process_ended_witness:
  "startup_failure fw_port_in_use = Some (EADDRINUSE 3000) \<and>
   main fw_port_in_use world0 =
     (UnhandledRejection (EADDRINUSE 3000),
      world0\<lparr>calls :=
        [Invoke (Create AppModule), Await (Create AppModule),
         Invoke (Listen (NestApplication 1) 3000), Await (Listen (NestApplication 1) 3000)]\<rparr>) \<and>
   logged (run_events fw_port_in_use world0) = [] \<and>
   startup_failure fw_create_fails = Some (FrameworkError ''cannot resolve dependencies'') \<and>
   main fw_create_fails world0 =
     (ProcessEnded,
      world0\<lparr>calls := [Invoke (Create AppModule), Await (Create AppModule)],
        listening := None, exited := Some 1\<rparr>) \<and>
   startup_failure fw_create_rejects = Some (FrameworkError ''cannot resolve dependencies'') \<and>
   main fw_create_rejects world0 =
     (UnhandledRejection (FrameworkError ''cannot resolve dependencies''),
      world0\<lparr>calls := [Invoke (Create AppModule), Await (Create AppModule)]\<rparr>)"
  using startup_failure_unhandled_or_process_ended
      [of fw_port_in_use "EADDRINUSE 3000" world0]
    startup_failure_unhandled_or_process_ended
      [of fw_create_fails "FrameworkError ''cannot resolve dependencies''" world0]
    startup_failure_unhandled_or_process_ended
      [of fw_create_rejects "FrameworkError ''cannot resolve dependencies''" world0]
  by (simp add: fw_port_in_use_simps fw_create_fails_simps fw_create_rejects_simps
      world0_simps)

text \<open>
  C4. The bootstrap is a straight line. What the framework does decides how far a run gets
  and nothing else: the events of a run are the statements of the one fixed sequence, in
  order, up to the first await that fails (all of them where none fails), each call issued
  once and \<open>listen\<close> with the literal 3000; and nothing in the world the run starts from
  (arguments, environment, files, earlier events) changes the events or the result.
\<close>

theorem bootstrap_is_straight_line:
  "run_events fw w =
     (case create_result fw AppModule of
        Inl e \<Rightarrow> [Invoke (Create AppModule), Await (Create AppModule)]
      | Inr a \<Rightarrow>
          (case listen_result fw a 3000 of
             Some e \<Rightarrow>
               [Invoke (Create AppModule), Await (Create AppModule),
                Invoke (Listen a 3000), Await (Listen a 3000)]
           | None \<Rightarrow>
               [Invoke (Create AppModule), Await (Create AppModule),
                Invoke (Listen a 3000), Await (Listen a 3000),
                Invoke (Log ''Server running on http://localhost:3000'')])) \<and>
   run_events fw w' = run_events fw w \<and>
   fst (bootstrap fw w') = fst (bootstrap fw w)"
proof (cases rule: run_cases [of fw])
  case (create_fails e)
  have ev: "run_events fw v = take 2 (steps (NestApplication 0))" for v
    using create_fails by (rule run_events_create_fails)
  show ?thesis
  proof (cases "abort_on_error fw")
    case True
    with create_fails show ?thesis
      by (simp add: ev steps_def bootstrap_create_aborts)
  next
    case False
    with create_fails show ?thesis
      by (simp add: ev steps_def bootstrap_create_rejects)
  qed
next
  case (listen_rejects b e)
  have ev: "run_events fw v = take 4 (steps b)" for v
    using listen_rejects by (rule run_events_listen_rejects)
  from listen_rejects show ?thesis
    by (simp add: ev steps_def bootstrap_listen_rejects)
next
  case (resolves b)
  have ev: "run_events fw v = steps b" for v
    using resolves by (rule run_events_resolves)
  from resolves show ?thesis
    by (simp add: ev steps_def bootstrap_resolves)
qed

theorem bootstrap_is_straight_line_witness:
  "run_events fw_ok world0 =
     [Invoke (Create AppModule), Await (Create AppModule),
      Invoke (Listen (NestApplication 1) 3000), Await (Listen (NestApplication 1) 3000),
      Invoke (Log ''Server running on http://localhost:3000'')] \<and>
   run_events fw_port_in_use world0 =
     [Invoke (Create AppModule), Await (Create AppModule),
      Invoke (Listen (NestApplication 1) 3000), Await (Listen (NestApplication 1) 3000)] \<and>
   run_events fw_create_fails world0 =
     [Invoke (Create AppModule), Await (Create AppModule)]"
  using bootstrap_is_straight_line [of fw_ok world0 world0]
    bootstrap_is_straight_line [of fw_port_in_use world0 world0]
    bootstrap_is_straight_line [of fw_create_fails world0 world0]
  by (simp add: fw_ok_simps fw_port_in_use_simps fw_create_fails_simps)

text \<open>
  C5, as the spec has it: the routine constructs an application object and calls
  \<open>listen\<close> on a fixed port, and its body consists of nothing more. It fails on a run that
  starts: the body also calls \<open>console.log\<close>.
\<close>

theorem two_things_only_counterexample:
  "\<not> spec_two_things_only (run_events fw_ok world0)"
  by (simp add: spec_two_things_only_def run_events_fw_ok steps_def)

text \<open>
  C5, amended. The routine is a four-line sequence (three statements and a comment) that
  does exactly three things, in this order: it constructs an application object from the
  framework, calls \<open>listen\<close> on the fixed port 3000, and logs one fixed message. The calls
  of a run are exactly these three where nothing fails, the first two where \<open>listen\<close>
  fails, and the first alone where the factory fails.
\<close>

theorem bootstrap_does_three_things:
  "length bootstrap_body = 4 \<and>
   length (filter is_statement bootstrap_body) = 3 \<and>
   run_lines fw bootstrap_body None = bootstrap fw \<and>
   invoked (run_events fw w) =
     (case create_result fw AppModule of
        Inl e \<Rightarrow> [Create AppModule]
      | Inr a \<Rightarrow>
          (case listen_result fw a 3000 of
             Some e \<Rightarrow> [Create AppModule, Listen a 3000]
           | None \<Rightarrow>
               [Create AppModule, Listen a 3000,
                Log ''Server running on http://localhost:3000'']))"
proof -
  have lines: "length bootstrap_body = 4 \<and> length (filter is_statement bootstrap_body) = 3"
    by (simp add: bootstrap_body_def)
  have calls: "invoked (run_events fw w) =
     (case create_result fw AppModule of
        Inl e \<Rightarrow> [Create AppModule]
      | Inr a \<Rightarrow>
          (case listen_result fw a 3000 of
             Some e \<Rightarrow> [Create AppModule, Listen a 3000]
           | None \<Rightarrow>
               [Create AppModule, Listen a 3000,
                Log ''Server running on http://localhost:3000'']))"
  proof (cases rule: run_cases [of fw])
    case (create_fails e)
    then have "run_events fw w = take 2 (steps (NestApplication 0))"
      by (rule run_events_create_fails)
    with create_fails show ?thesis
      by (simp add: steps_def)
  next
    case (listen_rejects b e)
    then have "run_events fw w = take 4 (steps b)"
      by (rule run_events_listen_rejects)
    with listen_rejects show ?thesis
      by (simp add: steps_def)
  next
    case (resolves b)
    then have "run_events fw w = steps b"
      by (rule run_events_resolves)
    with resolves show ?thesis
      by (simp add: steps_def)
  qed
  from lines calls run_lines_bootstrap_body [of fw] show ?thesis
    by simp
qed

theorem bootstrap_does_three_things_witness:
  "invoked (run_events fw_ok world0) =
     [Create AppModule, Listen (NestApplication 1) 3000,
      Log ''Server running on http://localhost:3000''] \<and>
   invoked (run_events fw_port_in_use world0) =
     [Create AppModule, Listen (NestApplication 1) 3000] \<and>
   invoked (run_events fw_create_fails world0) = [Create AppModule]"
  using bootstrap_does_three_things [of fw_ok world0]
    bootstrap_does_three_things [of fw_port_in_use world0]
    bootstrap_does_three_things [of fw_create_fails world0]
  by (simp add: fw_ok_simps fw_port_in_use_simps fw_create_fails_simps)

text \<open>
  C6, as the spec has it: the code performs a single awaited operation. It fails on a run
  that starts, which evaluates two awaits.
\<close>

theorem single_await_counterexample:
  "\<not> spec_single_await (run_events fw_ok world0)"
  by (simp add: spec_single_await_def run_events_fw_ok steps_def)

text \<open>
  C6, amended. The routine performs two awaited operations, one after the other: it calls
  the factory once and awaits that promise, then calls \<open>listen(3000)\<close> once on the
  application and awaits that promise (where the factory fails, the first is the only one);
  where both succeed it then calls \<open>console.log\<close> once. These are all the events of a
  run: the code issues no other call, handles no request and schedules nothing itself.
\<close>

theorem bootstrap_awaits_create_then_listen:
  "awaited (run_events fw w) =
     (case create_result fw AppModule of
        Inl e \<Rightarrow> [Create AppModule]
      | Inr a \<Rightarrow> [Create AppModule, Listen a 3000]) \<and>
   run_events fw w =
     (case create_result fw AppModule of
        Inl e \<Rightarrow> [Invoke (Create AppModule), Await (Create AppModule)]
      | Inr a \<Rightarrow>
          [Invoke (Create AppModule), Await (Create AppModule),
           Invoke (Listen a 3000), Await (Listen a 3000)] @
          (case listen_result fw a 3000 of
             Some e \<Rightarrow> []
           | None \<Rightarrow> [Invoke (Log ''Server running on http://localhost:3000'')]))"
proof (cases rule: run_cases [of fw])
  case (create_fails e)
  then have "run_events fw w = take 2 (steps (NestApplication 0))"
    by (rule run_events_create_fails)
  with create_fails show ?thesis
    by (simp add: steps_def)
next
  case (listen_rejects b e)
  then have "run_events fw w = take 4 (steps b)"
    by (rule run_events_listen_rejects)
  with listen_rejects show ?thesis
    by (simp add: steps_def)
next
  case (resolves b)
  then have "run_events fw w = steps b"
    by (rule run_events_resolves)
  with resolves show ?thesis
    by (simp add: steps_def)
qed

theorem bootstrap_awaits_create_then_listen_witness:
  "awaited (run_events fw_ok world0) = [Create AppModule, Listen (NestApplication 1) 3000] \<and>
   awaits (run_events fw_ok world0) = 2 \<and>
   awaited (run_events fw_create_fails world0) = [Create AppModule]"
  using bootstrap_awaits_create_then_listen [of fw_ok world0]
    bootstrap_awaits_create_then_listen [of fw_create_fails world0]
  by (simp add: fw_ok_simps fw_create_fails_simps)

text \<open>
  C7. When the start succeeds, the process is bound to port 3000 and stays so: the program
  resolves, the server is bound to 3000 in the world it leaves, the process has not exited,
  and no call of the run closes the application or exits the process.
\<close>

theorem started_server_stays_bound:
  assumes "fully_started fw" and "exited w = None"
  shows "fst (main fw w) = Resolved \<and>
    listening (snd (main fw w)) = Some 3000 \<and>
    exited (snd (main fw w)) = None \<and>
    \<not> list_ex stops (invoked (run_events fw w)) \<and>
    listen_ports (run_events fw w) = [3000]"
proof -
  from assms(1) obtain a where c: "create_result fw AppModule = Inr a"
    and l: "listen_result fw a 3000 = None"
    by (rule fully_started_obtain)
  have "run_events fw w = steps a"
    using c l by (rule run_events_resolves)
  with assms(2) show ?thesis
    by (simp add: main_def bootstrap_resolves [OF c l] steps_def)
qed

theorem started_server_stays_bound_witness:
  "fully_started fw_ok \<and> exited world0 = None \<and>
   fst (main fw_ok world0) = Resolved \<and>
   listening (snd (main fw_ok world0)) = Some 3000 \<and>
   exited (snd (main fw_ok world0)) = None"
  using started_server_stays_bound [of fw_ok world0]
  by (simp add: fw_ok_simps world0_simps)

text \<open>
  C8. The routine touches no data of its own: the persistent records and the input of the
  world are the same after a run as before it, the run does not read the records either
  (with other records it gives the same result, the same events and the same port), and
  the exit state changes only where the framework itself ends the process.
\<close>

theorem bootstrap_leaves_records_alone:
  "files (snd (bootstrap fw w)) = files w \<and>
   proc (snd (bootstrap fw w)) = proc w \<and>
   exited (snd (bootstrap fw w)) =
     (case create_result fw AppModule of
        Inl e \<Rightarrow> if abort_on_error fw then Some 1 else exited w
      | Inr a \<Rightarrow> exited w) \<and>
   bootstrap fw (w\<lparr>files := f\<rparr>) =
     (fst (bootstrap fw w), (snd (bootstrap fw w))\<lparr>files := f\<rparr>)"
proof (cases rule: run_cases [of fw])
  case (create_fails e)
  show ?thesis
  proof (cases "abort_on_error fw")
    case True
    with create_fails show ?thesis
      by (simp add: bootstrap_create_aborts)
  next
    case False
    with create_fails show ?thesis
      by (simp add: bootstrap_create_rejects)
  qed
next
  case (listen_rejects a e)
  then show ?thesis
    by (simp add: bootstrap_listen_rejects)
next
  case (resolves a)
  then show ?thesis
    by (simp add: bootstrap_resolves)
qed

text \<open>
  C9. The port does not depend on command-line arguments or environment variables: the
  ports handed to \<open>listen\<close> in a run are decided by the framework alone (none where the
  factory fails, else 3000 and nothing else), so a run with other arguments and another
  environment hands \<open>listen\<close> the same port.
\<close>

theorem listen_port_independent_of_input:
  "listen_ports (run_events fw w) =
     (case create_result fw AppModule of Inl e \<Rightarrow> [] | Inr a \<Rightarrow> [3000]) \<and>
   listen_ports (run_events fw (w\<lparr>proc := \<lparr>argv = args, env = vars\<rparr>\<rparr>)) =
     listen_ports (run_events fw w)"
proof (cases rule: run_cases [of fw])
  case (create_fails e)
  have "run_events fw v = take 2 (steps (NestApplication 0))" for v
    using create_fails by (rule run_events_create_fails)
  with create_fails show ?thesis
    by (simp add: steps_def)
next
  case (listen_rejects a e)
  have "run_events fw v = take 4 (steps a)" for v
    using listen_rejects by (rule run_events_listen_rejects)
  with listen_rejects show ?thesis
    by (simp add: steps_def)
next
  case (resolves a)
  have "run_events fw v = steps a" for v
    using resolves by (rule run_events_resolves)
  with resolves show ?thesis
    by (simp add: steps_def)
qed

text \<open>
  C10. The start-up message is logged only after both the construction of the application
  and \<open>listen(3000)\<close> have resolved: where it occurs among the events of a run, the
  framework is fully started, the message is the last event, behind both awaits, its text
  is exactly \<open>Server running on http://localhost:3000\<close>, and the port it names is the
  one handed to \<open>listen\<close>.
\<close>

theorem log_only_after_listen_resolved:
  assumes "Invoke (Log s) \<in> set (run_events fw w)"
  shows "fully_started fw \<and>
    s = ''Server running on http://localhost:3000'' \<and>
    (\<exists>a. run_events fw w =
       [Invoke (Create AppModule), Await (Create AppModule),
        Invoke (Listen a 3000), Await (Listen a 3000), Invoke (Log s)]) \<and>
    (\<forall>p \<in> set (listen_ports (run_events fw w)).
       s = ''Server running on http://localhost:'' @ decimal p)"
proof (cases rule: run_cases [of fw])
  case (create_fails e)
  then have "run_events fw w = take 2 (steps (NestApplication 0))"
    by (rule run_events_create_fails)
  with assms show ?thesis by (simp add: steps_def)
next
  case (listen_rejects a e)
  then have "run_events fw w = take 4 (steps a)"
    by (rule run_events_listen_rejects)
  with assms show ?thesis by (simp add: steps_def)
next
  case (resolves a)
  then have ev: "run_events fw w = steps a"
    by (rule run_events_resolves)
  have d: "decimal 3000 = ''3000''"
    by code_simp
  from resolves have "fully_started fw"
    by (simp add: fully_started_def)
  with assms ev d show ?thesis
    by (simp add: steps_def)
qed

theorem log_only_after_listen_resolved_witness:
  "Invoke (Log ''Server running on http://localhost:3000'') \<in> set (run_events fw_ok world0) \<and>
   fully_started fw_ok \<and>
   listen_ports (run_events fw_ok world0) = [3000] \<and>
   ''Server running on http://localhost:3000'' = ''Server running on http://localhost:'' @ decimal 3000"
  using log_only_after_listen_resolved
    [of "''Server running on http://localhost:3000''" fw_ok world0]
  by (simp add: run_events_fw_ok steps_def)

end
